theory Spec2Isabelle
  imports Main "HOL-Library.Sublist"
begin

section \<open>The FastAPI-Users usage example (fastapi_users_usage.py)\<close>

text \<open>
  The module is a flat script: a backend switch read from the environment, two pydantic
  models, four route handlers that receive the user resolved by an external dependency,
  and one pass-through middleware. Handlers are modelled as functions of the resolved
  user; a dependency is a function from the request to either its error or the user.
\<close>

subsection \<open>Python values\<close>

text \<open>The values that occur in the handlers' dictionaries.\<close>

datatype pyval = PNone | PBool bool | PInt int | PStr string

text \<open>
  \<^verbatim>\<open>str(n)\<close> for a Python int: decimal digits, with a minus sign for negative numbers.
\<close>

function str_nat :: "nat \<Rightarrow> string" where
  "str_nat n =
     (if n < 10 then [''0123456789'' ! n]
      else str_nat (n div 10) @ [''0123456789'' ! (n mod 10)])"
  by pat_completeness auto
termination
  by (relation "measure (\<lambda>n. n)") auto

definition str_int :: "int \<Rightarrow> string" where
  "str_int i = (if i < 0 then CHR ''-'' # str_nat (nat (- i)) else str_nat (nat i))"

subsection \<open>Backend selection (lines 15-22)\<close>

text \<open>
  The process environment is a map from variable names to values. \<^verbatim>\<open>os.getenv(key, default)\<close>
  returns the value when the variable is set and the default otherwise; the list of
  names read so far is threaded through so that the number of reads is observable.
\<close>

type_synonym environ = "string \<rightharpoonup> string"

definition os_getenv :: "environ \<Rightarrow> string \<Rightarrow> string \<Rightarrow> string list \<Rightarrow> string \<times> string list" where
  "os_getenv env key dflt reads =
     (case env key of None \<Rightarrow> (dflt, reads @ [key]) | Some v \<Rightarrow> (v, reads @ [key]))"

text \<open>The two modules the script can import the dependencies and the User class from.\<close>

datatype auth_module =
    Manager          \<comment> \<open>\<^verbatim>\<open>app.auth.manager\<close>, \<^verbatim>\<open>app.auth.models\<close> (sqlalchemy)\<close>
  | ManagerBeanie    \<comment> \<open>\<^verbatim>\<open>app.auth.manager_beanie\<close>, \<^verbatim>\<open>app.auth.models_beanie\<close>\<close>

text \<open>
  Module import: \<^verbatim>\<open>BACKEND = os.getenv("FASTAPI_USERS_BACKEND", "sqlalchemy")\<close>, then the
  \<^verbatim>\<open>if BACKEND == "sqlalchemy": ... else: ...\<close> choice of the import. The result is the
  value of \<^verbatim>\<open>BACKEND\<close>, the module imported and the environment reads performed.
\<close>

definition module_import :: "environ \<Rightarrow> string \<times> auth_module \<times> string list" where
  "module_import env =
     (let (backend, reads) = os_getenv env ''FASTAPI_USERS_BACKEND'' ''sqlalchemy'' []
      in if backend = ''sqlalchemy'' then (backend, Manager, reads)
         else (backend, ManagerBeanie, reads))"

definition BACKEND :: "environ \<Rightarrow> string" where
  "BACKEND env = fst (module_import env)"

definition imported_module :: "environ \<Rightarrow> auth_module" where
  "imported_module env = fst (snd (module_import env))"

definition env_reads :: "environ \<Rightarrow> string list" where
  "env_reads env = snd (snd (module_import env))"

subsection \<open>The external User entity\<close>

text \<open>
  \<^verbatim>\<open>User\<close> is imported, not defined here. The handlers read \<^verbatim>\<open>user.id\<close>,
  \<^verbatim>\<open>user.email\<close> and \<^verbatim>\<open>user.is_superuser\<close>, and probe \<^verbatim>\<open>username\<close> with
  \<^verbatim>\<open>getattr\<close>. The identifier type belongs to the backend (a UUID, an integer, an
  object id), so it is a type parameter, and \<^verbatim>\<open>str\<close> on it is a parameter of the
  handlers. \<open>u_extra\<close> holds the attributes beyond the three declared ones.
\<close>

record 'i User =
  u_id :: 'i
  u_email :: string
  u_is_superuser :: bool
  u_extra :: "string \<rightharpoonup> pyval"

text \<open>\<^verbatim>\<open>getattr(user, name, default)\<close> on an attribute that is not one of the declared three.\<close>

definition getattr_user :: "'i User \<Rightarrow> string \<Rightarrow> pyval \<Rightarrow> pyval" where
  "getattr_user user name dflt = (case u_extra user name of None \<Rightarrow> dflt | Some v \<Rightarrow> v)"

subsection \<open>The pydantic models (lines 26-35)\<close>

text \<open>
  \<^verbatim>\<open>description: str = None\<close>: a field annotated \<^verbatim>\<open>str\<close> whose default is
  \<^verbatim>\<open>None\<close>. A parsed body that omits the field carries the default, unvalidated.
\<close>

record ItemCreate =
  ic_title :: string
  ic_description :: "string option"

record ItemResponse =
  ir_id :: int
  ir_title :: string
  ir_description :: "string option"
  ir_owner_id :: string

text \<open>
  What \<^verbatim>\<open>BaseModel\<close> does with an argument passed for such a field depends on the
  pydantic major version, which the script does not fix. Pydantic 1 turns a field with
  default \<^verbatim>\<open>None\<close> into an optional one, so an explicit \<^verbatim>\<open>None\<close> is accepted.
  Pydantic 2 validates every argument that is passed against the annotation
  \<^verbatim>\<open>str\<close> and raises \<^verbatim>\<open>ValidationError\<close> for \<^verbatim>\<open>None\<close>; only the default of an
  omitted field goes unvalidated.
\<close>

datatype pydantic = PydanticV1 | PydanticV2

datatype error = ValidationError string

text \<open>
  The constructor call \<^verbatim>\<open>ItemResponse(id=..., title=..., description=..., owner_id=...)\<close>.
  The handlers pass an int literal and strings for the other three fields, so only
  \<^verbatim>\<open>description\<close> can fail validation.
\<close>

definition ItemResponse_new ::
  "pydantic \<Rightarrow> int \<Rightarrow> string \<Rightarrow> string option \<Rightarrow> string \<Rightarrow> error + ItemResponse" where
  "ItemResponse_new pyd i t d ownr =
     (if d = None \<and> pyd = PydanticV2 then Inl (ValidationError ''description'')
      else Inr \<lparr>ir_id = i, ir_title = t, ir_description = d, ir_owner_id = ownr\<rparr>)"

subsection \<open>The handlers (lines 42-80)\<close>

text \<open>A returned \<^verbatim>\<open>dict\<close> is an association list in insertion order.\<close>

type_synonym pydict = "(string \<times> pyval) list"

definition protected_endpoint :: "('i \<Rightarrow> string) \<Rightarrow> 'i User \<Rightarrow> pydict" where
  "protected_endpoint py_str user =
     [(''message'', PStr (''Hello '' @ u_email user @ ''!'')),
      (''user_id'', PStr (py_str (u_id user))),
      (''username'', getattr_user user ''username'' (PStr ''N/A''))]"

definition admin_only_endpoint :: "'i User \<Rightarrow> pydict" where
  "admin_only_endpoint user =
     [(''message'', PStr (''Hello admin '' @ u_email user @ ''!'')),
      (''is_superuser'', PBool (u_is_superuser user))]"

definition create_item ::
  "pydantic \<Rightarrow> ('i \<Rightarrow> string) \<Rightarrow> ItemCreate \<Rightarrow> 'i User \<Rightarrow> error + ItemResponse" where
  "create_item pyd py_str item user =
     ItemResponse_new pyd 1 (ic_title item) (ic_description item) (py_str (u_id user))"

definition get_user_items ::
  "pydantic \<Rightarrow> ('i \<Rightarrow> string) \<Rightarrow> 'i User \<Rightarrow> error + ItemResponse list" where
  "get_user_items pyd py_str user =
     (case ItemResponse_new pyd 1 ''User's Item 1''
             (Some ''This belongs to the current user'') (py_str (u_id user)) of
        Inl e \<Rightarrow> Inl e
      | Inr r \<Rightarrow> Inr [r])"

subsection \<open>Dependency injection and the routes\<close>

text \<open>
  \<^verbatim>\<open>user: User = Depends(dep)\<close>: the framework evaluates the dependency on the request
  first. When it raises, the request fails with that error and the handler is not
  called; otherwise the handler is called with the value. The handlers have no
  \<^verbatim>\<open>try\<close> and the script registers no exception handler.
\<close>

definition Depends :: "('req \<Rightarrow> 'e + 'u) \<Rightarrow> ('u \<Rightarrow> 'r) \<Rightarrow> 'req \<Rightarrow> 'e + 'r" where
  "Depends dep handler request =
     (case dep request of Inl e \<Rightarrow> Inl e | Inr user \<Rightarrow> Inr (handler user))"

definition route_protected ::
  "('req \<Rightarrow> 'e + 'i User) \<Rightarrow> ('i \<Rightarrow> string) \<Rightarrow> 'req \<Rightarrow> 'e + pydict" where
  "route_protected current_active_user py_str =
     Depends current_active_user (protected_endpoint py_str)"

definition route_admin_only :: "('req \<Rightarrow> 'e + 'i User) \<Rightarrow> 'req \<Rightarrow> 'e + pydict" where
  "route_admin_only current_superuser = Depends current_superuser admin_only_endpoint"

text \<open>
  The same dispatch with the executed handler bodies made observable. A handler body that
  runs appends the name of its function to the list of bodies run so far and returns
  the handler's value; a request starts with the empty list. The dependency decides
  whether the body is entered at all.
\<close>

definition handler_body :: "string \<Rightarrow> ('u \<Rightarrow> 'r) \<Rightarrow> 'u \<Rightarrow> string list \<Rightarrow> 'r \<times> string list" where
  "handler_body name handler user bodies = (handler user, bodies @ [name])"

definition Depends_run ::
  "('req \<Rightarrow> 'e + 'u) \<Rightarrow> ('u \<Rightarrow> string list \<Rightarrow> 'r \<times> string list) \<Rightarrow> 'req \<Rightarrow> string list \<Rightarrow>
   ('e + 'r) \<times> string list" where
  "Depends_run dep run_body request bodies =
     (case dep request of
        Inl e \<Rightarrow> (Inl e, bodies)
      | Inr user \<Rightarrow> (case run_body user bodies of (r, bodies') \<Rightarrow> (Inr r, bodies')))"

definition run_protected ::
  "('req \<Rightarrow> 'e + 'i User) \<Rightarrow> ('i \<Rightarrow> string) \<Rightarrow> 'req \<Rightarrow> ('e + pydict) \<times> string list" where
  "run_protected current_active_user py_str request =
     Depends_run current_active_user
       (handler_body ''protected_endpoint'' (protected_endpoint py_str)) request []"

definition run_admin_only :: "('req \<Rightarrow> 'e + 'i User) \<Rightarrow> 'req \<Rightarrow> ('e + pydict) \<times> string list" where
  "run_admin_only current_superuser request =
     Depends_run current_superuser
       (handler_body ''admin_only_endpoint'' admin_only_endpoint) request []"

subsection \<open>Application assembly (lines 86-97)\<close>

text \<open>
  \<^verbatim>\<open>add_user_info(request, call_next)\<close> awaits \<^verbatim>\<open>call_next(request)\<close> and returns
  its response. An \<open>http\<close> middleware stack wraps the inner application, the first
  element of the list outermost.
\<close>

definition add_user_info :: "'req \<Rightarrow> ('req \<Rightarrow> 'resp) \<Rightarrow> 'resp" where
  "add_user_info request call_next = (let response = call_next request in response)"

definition app :: "('req \<Rightarrow> ('req \<Rightarrow> 'resp) \<Rightarrow> 'resp) list \<Rightarrow> ('req \<Rightarrow> 'resp) \<Rightarrow> 'req \<Rightarrow> 'resp" where
  "app middlewares router = foldr (\<lambda>mw call_next request. mw request call_next) middlewares router"

text \<open>A response with a status and a body, for concrete requests.\<close>

record response =
  status_code :: nat
  body :: pydict

section \<open>Properties\<close>

subsection \<open>Shared facts\<close>

lemma ItemResponse_new_Some:
  "ItemResponse_new pyd i t (Some d) ownr =
     Inr \<lparr>ir_id = i, ir_title = t, ir_description = Some d, ir_owner_id = ownr\<rparr>"
  by (simp add: ItemResponse_new_def)

lemma ItemResponse_new_None_V1:
  "ItemResponse_new PydanticV1 i t None ownr =
     Inr \<lparr>ir_id = i, ir_title = t, ir_description = None, ir_owner_id = ownr\<rparr>"
  by (simp add: ItemResponse_new_def)

lemma ItemResponse_new_None_V2:
  "ItemResponse_new PydanticV2 i t None ownr = Inl (ValidationError ''description'')"
  by (simp add: ItemResponse_new_def)

lemma Depends_Inr: "dep request = Inr user \<Longrightarrow> Depends dep handler request = Inr (handler user)"
  by (simp add: Depends_def)

lemma get_user_items_eq:
  "get_user_items pyd py_str user =
     Inr [\<lparr>ir_id = 1, ir_title = ''User's Item 1'',
           ir_description = Some ''This belongs to the current user'',
           ir_owner_id = py_str (u_id user)\<rparr>]"
  by (simp add: get_user_items_def ItemResponse_new_Some)

lemma module_import_eq:
  "module_import env =
     (case env ''FASTAPI_USERS_BACKEND'' of
        None \<Rightarrow> (''sqlalchemy'', Manager, [''FASTAPI_USERS_BACKEND''])
      | Some v \<Rightarrow> (v, if v = ''sqlalchemy'' then Manager else ManagerBeanie,
                  [''FASTAPI_USERS_BACKEND'']))"
  by (simp add: module_import_def os_getenv_def split: option.splits)

subsection \<open>POST /items\<close>

text \<open>
  With a description present the constructor succeeds under either pydantic version, and
  with the description absent it succeeds under pydantic 1, where the response carries
  \<^verbatim>\<open>description = None\<close>.
\<close>

lemma create_item_with_description:
  "create_item pyd py_str \<lparr>ic_title = t, ic_description = Some d\<rparr> user =
     Inr \<lparr>ir_id = 1, ir_title = t, ir_description = Some d, ir_owner_id = py_str (u_id user)\<rparr>"
  by (simp add: create_item_def ItemResponse_new_Some)

lemma create_item_absent_description_pydantic1:
  "py_str (u_id user) = ''42'' \<Longrightarrow>
   create_item PydanticV1 py_str \<lparr>ic_title = ''T'', ic_description = None\<rparr> user =
     Inr \<lparr>ir_id = 1, ir_title = ''T'', ir_description = None, ir_owner_id = ''42''\<rparr>"
  by (simp add: create_item_def ItemResponse_new_None_V1)

lemma create_item_absent_description_pydantic1_example:
  "create_item PydanticV1 str_int \<lparr>ic_title = ''T'', ic_description = None\<rparr>
     \<lparr>u_id = 42, u_email = ''a@example.com'', u_is_superuser = False, u_extra = Map.empty\<rparr> =
   Inr \<lparr>ir_id = 1, ir_title = ''T'', ir_description = None, ir_owner_id = ''42''\<rparr>"
  by (simp add: create_item_def ItemResponse_new_None_V1 str_int_def)

text \<open>
  Claim C1: for the body with title "T" and no description and a user whose identifier
  stringifies to "42", \<open>create_item\<close> returns the response with id 1, title "T",
  description null and owner_id "42". Under pydantic 2 the handler does not return
  it: \<open>item.description\<close> is \<^verbatim>\<open>None\<close>, it is passed explicitly to a field annotated
  \<^verbatim>\<open>str\<close>, and the constructor raises \<^verbatim>\<open>ValidationError\<close>.
\<close>

theorem create_item_absent_description_pydantic2:
  "create_item PydanticV2 str_int \<lparr>ic_title = ''T'', ic_description = None\<rparr>
     \<lparr>u_id = 42, u_email = ''a@example.com'', u_is_superuser = False, u_extra = Map.empty\<rparr> =
   Inl (ValidationError ''description'')"
  by (simp add: create_item_def ItemResponse_new_None_V2)

subsection \<open>GET /admin-only\<close>

text \<open>
  Claim C2: when the superuser dependency resolved a user that holds the superuser flag,
  the admin-only route answers with the dictionary of \<open>admin_only_endpoint\<close>, whose
  \<open>is_superuser\<close> entry is true.
\<close>

theorem admin_only_is_superuser:
  assumes "current_superuser request = Inr user" and "u_is_superuser user"
  shows "\<exists>d. route_admin_only current_superuser request = Inr d \<and> d = admin_only_endpoint user \<and>
           map_of d ''is_superuser'' = Some (PBool True)"
  using assms by (simp add: route_admin_only_def Depends_Inr admin_only_endpoint_def)

theorem admin_only_is_superuser_witness:
  "\<exists>d. route_admin_only
         (\<lambda>request::string. (Inr \<lparr>u_id = 1::int, u_email = ''root@example.com'', u_is_superuser = True,
                u_extra = Map.empty\<rparr> :: nat + int User)) ''GET /examples/admin-only'' = Inr d \<and>
       d = admin_only_endpoint \<lparr>u_id = 1::int, u_email = ''root@example.com'', u_is_superuser = True,
                u_extra = Map.empty\<rparr> \<and>
       map_of d ''is_superuser'' = Some (PBool True)"
  using admin_only_is_superuser
    [where current_superuser = "\<lambda>request::string. (Inr \<lparr>u_id = 1::int, u_email = ''root@example.com'',
                u_is_superuser = True, u_extra = Map.empty\<rparr> :: nat + int User)"
       and request = "''GET /examples/admin-only''"
       and user = "\<lparr>u_id = 1::int, u_email = ''root@example.com'', u_is_superuser = True,
                u_extra = Map.empty\<rparr>"]
  by simp

subsection \<open>GET /protected\<close>

text \<open>
  Claim C3: for a user without a \<open>username\<close> attribute the protected handler returns
  the placeholder "N/A" as the username entry, and for a user with the attribute it
  returns the attribute's value. The handler is total: it returns a dictionary for
  every user.
\<close>

theorem protected_username:
  "(u_extra user ''username'' = None \<longrightarrow>
      map_of (protected_endpoint py_str user) ''username'' = Some (PStr ''N/A'')) \<and>
   (u_extra user ''username'' = Some v \<longrightarrow>
      map_of (protected_endpoint py_str user) ''username'' = Some v)"
  by (simp add: protected_endpoint_def getattr_user_def)

theorem protected_username_witness:
  "map_of (protected_endpoint str_int
       \<lparr>u_id = 7, u_email = ''a@example.com'', u_is_superuser = False, u_extra = Map.empty\<rparr>)
     ''username'' = Some (PStr ''N/A'') \<and>
   map_of (protected_endpoint str_int
       \<lparr>u_id = 7, u_email = ''a@example.com'', u_is_superuser = False,
        u_extra = [''username'' \<mapsto> PStr ''alice'']\<rparr>)
     ''username'' = Some (PStr ''alice'')"
  using protected_username
    [where user = "\<lparr>u_id = 7, u_email = ''a@example.com'', u_is_superuser = False,
                   u_extra = Map.empty\<rparr>"
       and py_str = str_int and v = "PStr ''alice''"]
    protected_username
    [where user = "\<lparr>u_id = 7, u_email = ''a@example.com'', u_is_superuser = False,
                   u_extra = [''username'' \<mapsto> PStr ''alice'']\<rparr>"
       and py_str = str_int and v = "PStr ''alice''"]
  by simp

text \<open>
  Claim C4: for every user the protected handler's message entry is a string that
  contains the user's email as a contiguous substring, and its user_id entry is the
  string form of the user's identifier.
\<close>

theorem protected_message_user_id:
  "\<exists>msg. map_of (protected_endpoint py_str user) ''message'' = Some (PStr msg) \<and>
         sublist (u_email user) msg \<and>
         map_of (protected_endpoint py_str user) ''user_id'' = Some (PStr (py_str (u_id user)))"
proof -
  have m: "map_of (protected_endpoint py_str user) ''message'' =
             Some (PStr (''Hello '' @ u_email user @ ''!''))"
    by (simp add: protected_endpoint_def)
  have s: "sublist (u_email user) (''Hello '' @ u_email user @ ''!'')"
    by (rule sublist_appendI)
  have i: "map_of (protected_endpoint py_str user) ''user_id'' = Some (PStr (py_str (u_id user)))"
    by (simp add: protected_endpoint_def)
  from m s i show ?thesis by blast
qed

subsection \<open>GET /items\<close>

text \<open>
  Claim C5: for every user (and either pydantic version) \<open>get_user_items\<close> returns a
  list of exactly one item, whose owner_id is the string form of the user's identifier
  and whose title is the literal "User's Item 1".
\<close>

theorem get_user_items_owner_title:
  "\<exists>r. get_user_items pyd py_str user = Inr [r] \<and>
       ir_owner_id r = py_str (u_id user) \<and> ir_title r = ''User's Item 1''"
  by (simp add: get_user_items_eq)

text \<open>
  Claim C10: the sole item returned by \<open>get_user_items\<close> has id 1 and the description
  "This belongs to the current user", and any other caller gets the same id and
  description.
\<close>

theorem get_user_items_id_description:
  "\<exists>r. get_user_items pyd py_str user = Inr [r] \<and> ir_id r = 1 \<and>
       ir_description r = Some ''This belongs to the current user'' \<and>
       (\<exists>r'. get_user_items pyd' py_str' user' = Inr [r'] \<and> ir_id r' = ir_id r \<and>
          ir_description r' = ir_description r)"
  by (simp add: get_user_items_eq)

subsection \<open>Failing dependencies\<close>

lemma Depends_run_Inl:
  "dep request = Inl e \<Longrightarrow> Depends_run dep run_body request bodies = (Inl e, bodies)"
  by (simp add: Depends_run_def)

lemma Depends_run_Inr:
  "dep request = Inr user \<Longrightarrow>
   Depends_run dep (handler_body name handler) request bodies = (Inr (handler user), bodies @ [name])"
  by (simp add: Depends_run_def handler_body_def)

lemma Depends_run_result:
  "fst (Depends_run dep (handler_body name handler) request bodies) = Depends dep handler request"
  by (cases "dep request") (simp_all add: Depends_run_def handler_body_def Depends_def)

lemma Depends_run_ran:
  "snd (Depends_run dep (handler_body name handler) request []) =
     (case dep request of Inl e \<Rightarrow> [] | Inr user \<Rightarrow> [name])"
  by (cases "dep request") (simp_all add: Depends_run_def handler_body_def)

lemma body_ran_iff:
  "name \<in> set (snd (Depends_run dep (handler_body name handler) request [])) \<longleftrightarrow>
     (\<exists>user. dep request = Inr user)"
  by (cases "dep request") (simp_all add: Depends_run_ran)

text \<open>
  Claim C6: when the identity dependency of /protected or /admin-only fails, no handler
  body runs (the list of bodies run stays empty) and the request's outcome is exactly
  the dependency's error. When it resolves a user, the body of the route's own handler
  runs, once, and the outcome is that handler's value for the user. So a handler body is
  among the bodies run if and only if its dependency resolved a user, and the outcome
  of a run is the outcome of the route.
\<close>

theorem dependency_failure_propagates:
  "(current_active_user request = Inl e \<longrightarrow>
      run_protected current_active_user py_str request = (Inl e, [])) \<and>
   (current_superuser request = Inl e \<longrightarrow>
      run_admin_only current_superuser request = (Inl e, [])) \<and>
   (current_active_user request = Inr user \<longrightarrow>
      run_protected current_active_user py_str request =
        (Inr (protected_endpoint py_str user), [''protected_endpoint''])) \<and>
   (current_superuser request = Inr user \<longrightarrow>
      run_admin_only current_superuser request =
        (Inr (admin_only_endpoint user), [''admin_only_endpoint''])) \<and>
   (''protected_endpoint'' \<in> set (snd (run_protected current_active_user py_str request)) \<longleftrightarrow>
      (\<exists>u. current_active_user request = Inr u)) \<and>
   (''admin_only_endpoint'' \<in> set (snd (run_admin_only current_superuser request)) \<longleftrightarrow>
      (\<exists>u. current_superuser request = Inr u)) \<and>
   fst (run_protected current_active_user py_str request) =
     route_protected current_active_user py_str request \<and>
   fst (run_admin_only current_superuser request) = route_admin_only current_superuser request"
proof -
  have a: "current_active_user request = Inl e \<longrightarrow>
      run_protected current_active_user py_str request = (Inl e, [])"
    by (simp add: run_protected_def Depends_run_Inl)
  have b: "current_superuser request = Inl e \<longrightarrow>
      run_admin_only current_superuser request = (Inl e, [])"
    by (simp add: run_admin_only_def Depends_run_Inl)
  have c: "current_active_user request = Inr user \<longrightarrow>
      run_protected current_active_user py_str request =
        (Inr (protected_endpoint py_str user), [''protected_endpoint''])"
    by (simp add: run_protected_def Depends_run_Inr)
  have d: "current_superuser request = Inr user \<longrightarrow>
      run_admin_only current_superuser request =
        (Inr (admin_only_endpoint user), [''admin_only_endpoint''])"
    by (simp add: run_admin_only_def Depends_run_Inr)
  have f: "''protected_endpoint'' \<in> set (snd (run_protected current_active_user py_str request)) \<longleftrightarrow>
      (\<exists>u. current_active_user request = Inr u)"
    unfolding run_protected_def by (rule body_ran_iff)
  have g: "''admin_only_endpoint'' \<in> set (snd (run_admin_only current_superuser request)) \<longleftrightarrow>
      (\<exists>u. current_superuser request = Inr u)"
    unfolding run_admin_only_def by (rule body_ran_iff)
  have h: "fst (run_protected current_active_user py_str request) =
      route_protected current_active_user py_str request"
    by (simp add: run_protected_def route_protected_def Depends_run_result)
  have k: "fst (run_admin_only current_superuser request) =
      route_admin_only current_superuser request"
    by (simp add: run_admin_only_def route_admin_only_def Depends_run_result)
  from a b c d f g h k show ?thesis by blast
qed

theorem dependency_failure_propagates_witness:
  "run_protected (\<lambda>request::string. (Inl (401::nat) :: nat + int User)) str_int ''r'' =
     (Inl 401, []) \<and>
   run_admin_only (\<lambda>request::string. (Inl (401::nat) :: nat + int User)) ''r'' = (Inl 401, []) \<and>
   run_protected (\<lambda>request::string. (Inr \<lparr>u_id = 7, u_email = ''a@example.com'',
        u_is_superuser = True, u_extra = Map.empty\<rparr> :: nat + int User)) str_int ''r'' =
     (Inr (protected_endpoint str_int \<lparr>u_id = 7, u_email = ''a@example.com'',
        u_is_superuser = True, u_extra = Map.empty\<rparr>), [''protected_endpoint'']) \<and>
   run_admin_only (\<lambda>request::string. (Inr \<lparr>u_id = 7, u_email = ''a@example.com'',
        u_is_superuser = True, u_extra = Map.empty\<rparr> :: nat + int User)) ''r'' =
     (Inr (admin_only_endpoint \<lparr>u_id = 7::int, u_email = ''a@example.com'',
        u_is_superuser = True, u_extra = Map.empty\<rparr>), [''admin_only_endpoint''])"
  using dependency_failure_propagates
    [where current_active_user = "\<lambda>request::string. (Inl (401::nat) :: nat + int User)"
       and request = "''r''" and e = 401 and py_str = str_int
       and current_superuser = "\<lambda>request::string. (Inl (401::nat) :: nat + int User)"
       and user = "\<lparr>u_id = 7, u_email = ''a@example.com'', u_is_superuser = True,
                    u_extra = Map.empty\<rparr>"]
    dependency_failure_propagates
    [where current_active_user = "\<lambda>request::string. (Inr \<lparr>u_id = 7, u_email = ''a@example.com'',
        u_is_superuser = True, u_extra = Map.empty\<rparr> :: nat + int User)"
       and request = "''r''" and e = 401 and py_str = str_int
       and current_superuser = "\<lambda>request::string. (Inr \<lparr>u_id = 7, u_email = ''a@example.com'',
        u_is_superuser = True, u_extra = Map.empty\<rparr> :: nat + int User)"
       and user = "\<lparr>u_id = 7, u_email = ''a@example.com'', u_is_superuser = True,
                    u_extra = Map.empty\<rparr>"]
  by simp

subsection \<open>The middleware\<close>

text \<open>
  Claim C7: the middleware returns what the next handler returns for the unchanged
  request, so the application with \<open>add_user_info\<close> registered is the same function of
  the request as the application without it; in particular status and body agree.
\<close>

theorem add_user_info_transparent:
  "add_user_info request call_next = call_next request \<and>
   app [add_user_info] router = app [] router \<and>
   status_code (app [add_user_info] handler request) = status_code (app [] handler request) \<and>
   body (app [add_user_info] handler request) = body (app [] handler request)"
  by (simp add: app_def add_user_info_def)

subsection \<open>Backend selection\<close>

text \<open>
  Claim C8: importing the module reads the environment once, and the variable read is
  FASTAPI_USERS_BACKEND; the module imported is the sqlalchemy one when the value of
  \<open>BACKEND\<close> is "sqlalchemy" and the beanie one otherwise; when the variable is unset,
  \<open>BACKEND\<close> is "sqlalchemy" and the sqlalchemy module is imported.
\<close>

theorem backend_selection:
  "env_reads env = [''FASTAPI_USERS_BACKEND''] \<and>
   imported_module env = (if BACKEND env = ''sqlalchemy'' then Manager else ManagerBeanie) \<and>
   (env ''FASTAPI_USERS_BACKEND'' = None \<longrightarrow>
      BACKEND env = ''sqlalchemy'' \<and> imported_module env = Manager) \<and>
   (env ''FASTAPI_USERS_BACKEND'' = Some v \<longrightarrow> BACKEND env = v)"
  by (simp add: env_reads_def imported_module_def BACKEND_def module_import_eq split: option.splits)

theorem backend_selection_witness:
  "env_reads Map.empty = [''FASTAPI_USERS_BACKEND''] \<and>
   BACKEND Map.empty = ''sqlalchemy'' \<and> imported_module Map.empty = Manager \<and>
   BACKEND [''FASTAPI_USERS_BACKEND'' \<mapsto> ''beanie''] = ''beanie'' \<and>
   imported_module [''FASTAPI_USERS_BACKEND'' \<mapsto> ''beanie''] = ManagerBeanie"
  using backend_selection [where env = Map.empty and v = "''beanie''"]
    backend_selection [where env = "[''FASTAPI_USERS_BACKEND'' \<mapsto> ''beanie'']" and v = "''beanie''"]
  by simp

text \<open>
  Claim C9: when the variable is set to any value other than "sqlalchemy", the import
  completes with that value as \<open>BACKEND\<close> and the beanie module selected; no value is
  rejected.
\<close>

theorem unrecognised_backend_selects_beanie:
  assumes "env ''FASTAPI_USERS_BACKEND'' = Some v" and "v \<noteq> ''sqlalchemy''"
  shows "module_import env = (v, ManagerBeanie, [''FASTAPI_USERS_BACKEND''])"
  using assms by (simp add: module_import_eq)

theorem unrecognised_backend_selects_beanie_witness:
  "module_import [''FASTAPI_USERS_BACKEND'' \<mapsto> ''sqlalchmey''] =
     (''sqlalchmey'', ManagerBeanie, [''FASTAPI_USERS_BACKEND''])"
  using unrecognised_backend_selects_beanie
    [where env = "[''FASTAPI_USERS_BACKEND'' \<mapsto> ''sqlalchmey'']" and v = "''sqlalchmey''"]
  by simp

end
